theory Spec2Isabelle
  imports Complex_Main "HOL-Library.Multiset"
begin

section \<open>The hybrid movie recommender: data model\<close>

text \<open>
  The notebook fits three models once (the feature pipeline \<open>model\<close>, the ALS model
  \<open>collaborative_model\<close> and the random-forest pipeline \<open>content_model\<close>) and keeps
  them, with the flag \<open>server_active\<close>, as module-level globals. The functions
  \<open>hybrid_predict\<close>, \<open>recommend\<close> and \<open>shutdown\<close> read and write these globals.

  The fitted stages come from the Spark ML library, so each is taken as a parameter: a
  field of the record below. What the notebook itself fixes is written out: the two
  string indexers are built without \<open>handleInvalid\<close>, so a label that was not seen
  when fitting raises; ALS is built with \<open>coldStartStrategy="drop"\<close>, so a row
  without a prediction is removed from the result; the columns each model reads are the
  ones the notebook selects.

  Python floats are modelled as real numbers: rounding, infinities and NaN are left out.
  The Spark session \<open>spark\<close> is not part of the state: its calls are functions of
  their arguments.
\<close>

datatype error =
    KeyError string
  | IndexError
  | UnseenLabel string
  | CannotDetermineType
  | NoResponse

type_synonym vector = "real list"

text \<open>
  The fitted \<open>Pipeline(stages=[user_indexer, user_encoder, movie_indexer, movie_encoder,
  hashingTF, idf])\<close>. An indexer is the table from a raw identifier to its dense index.
\<close>

record pipeline_model =
  user_indexer :: "int \<rightharpoonup> nat"
  user_encoder :: "nat \<Rightarrow> vector"
  movie_indexer :: "int \<rightharpoonup> nat"
  movie_encoder :: "nat \<Rightarrow> vector"
  hashingTF :: "string list \<Rightarrow> vector"
  idf :: "vector \<Rightarrow> vector"

text \<open>
  The module-level globals. \<open>collaborative_model g u i\<close> is the ALS prediction for the
  index pair, \<open>None\<close> when the model has none for it (the row that
  \<open>coldStartStrategy="drop"\<close> removes). \<open>content_model g\<close> is the fitted random
  forest, applied to the assembled feature vector.
\<close>

record globals =
  model :: pipeline_model
  collaborative_model :: "nat \<Rightarrow> nat \<Rightarrow> real option"
  content_model :: "vector \<Rightarrow> real"
  server_active :: bool

text \<open>
  A row of \<open>transformed_df\<close>. Spark computes a column when an action needs it, so a
  column that depends on an indexer holds either its value or the error that reading it
  raises.
\<close>

record row =
  in_userId :: int
  in_movieId :: int
  in_genres_list :: "string list"
  user_index :: "error + nat"
  user_vector :: "error + vector"
  movie_index :: "error + nat"
  movie_vector :: "error + vector"
  raw_features :: vector
  movie_genre_features :: vector

section \<open>Feature pipeline and the two scorers\<close>

definition string_indexer :: "string \<Rightarrow> (int \<rightharpoonup> nat) \<Rightarrow> int \<Rightarrow> error + nat" where
  "string_indexer col labels x =
     (case labels x of None \<Rightarrow> Inl (UnseenLabel col) | Some i \<Rightarrow> Inr i)"

definition transform_row :: "pipeline_model \<Rightarrow> int \<times> int \<times> string list \<Rightarrow> row" where
  "transform_row pm r =
     (case r of (u, m, gl) \<Rightarrow>
        let ui = string_indexer ''userId'' (user_indexer pm) u;
            mi = string_indexer ''movieId'' (movie_indexer pm) m;
            raw = hashingTF pm gl
        in \<lparr>in_userId = u, in_movieId = m, in_genres_list = gl,
            user_index = ui, user_vector = map_sum id (user_encoder pm) ui,
            movie_index = mi, movie_vector = map_sum id (movie_encoder pm) mi,
            raw_features = raw, movie_genre_features = idf pm raw\<rparr>)"

text \<open>
  \<open>collaborative_model.transform(df).select("prediction").collect()\<close>: the predictions
  of the rows that have one, in order; reading an index column that holds an error
  raises it.
\<close>

fun als_collect ::
  "(nat \<Rightarrow> nat \<Rightarrow> real option) \<Rightarrow> ((error + nat) \<times> (error + nat)) list \<Rightarrow> error + real list" where
  "als_collect am [] = Inr []"
| "als_collect am ((Inl e, _) # rs) = Inl e"
| "als_collect am ((Inr u, Inl e) # rs) = Inl e"
| "als_collect am ((Inr u, Inr i) # rs) =
     (case als_collect am rs of
        Inl e \<Rightarrow> Inl e
      | Inr ps \<Rightarrow> (case am u i of None \<Rightarrow> Inr ps | Some p \<Rightarrow> Inr (p # ps)))"

text \<open>
  \<open>content_model.transform(df).select("prediction").collect()\<close>: the assembler
  concatenates \<open>movie_vector\<close> and \<open>movie_genre_features\<close>, the forest scores the
  result.
\<close>

fun content_collect ::
  "(vector \<Rightarrow> real) \<Rightarrow> ((error + vector) \<times> vector) list \<Rightarrow> error + real list" where
  "content_collect cm [] = Inr []"
| "content_collect cm ((Inl e, _) # rs) = Inl e"
| "content_collect cm ((Inr mv, gf) # rs) =
     (case content_collect cm rs of
        Inl e \<Rightarrow> Inl e
      | Inr ps \<Rightarrow> Inr (cm (mv @ gf) # ps))"

text \<open>\<open>xs[0]\<close>: IndexError on the empty list.\<close>

definition first :: "'a list \<Rightarrow> error + 'a" where
  "first xs = (case xs of [] \<Rightarrow> Inl IndexError | x # _ \<Rightarrow> Inr x)"

section \<open>hybrid_predict\<close>

text \<open>
  The local variables of \<open>hybrid_predict\<close>, each as a function of the arguments and
  the globals it reads.
\<close>

text \<open>
  \<open>spark.createDataFrame(rows, ["userId", "movieId", "genres_list"])\<close> infers the
  column types from the rows. An empty genre list gives the elements of \<open>genres_list\<close>
  no type, so a frame in which no row names a genre is refused before any model runs;
  a frame without rows is refused as well.
\<close>

definition createDataFrame ::
  "(int \<times> int \<times> string list) list \<Rightarrow> error + (int \<times> int \<times> string list) list" where
  "createDataFrame rows =
     (if filter (\<lambda>r. snd (snd r) \<noteq> []) rows = [] then Inl CannotDetermineType else Inr rows)"

definition transformed_df :: "int \<Rightarrow> int \<Rightarrow> string list \<Rightarrow> globals \<Rightarrow> error + row list" where
  "transformed_df user movie genres g =
     (case createDataFrame [(user, movie, genres)] of
        Inl e \<Rightarrow> Inl e
      | Inr input_df \<Rightarrow> Inr (map (transform_row (model g)) input_df))"

definition cf_score :: "int \<Rightarrow> int \<Rightarrow> string list \<Rightarrow> globals \<Rightarrow> error + real" where
  "cf_score user movie genres g =
     (case transformed_df user movie genres g of
        Inl e \<Rightarrow> Inl e
      | Inr df \<Rightarrow>
          (case als_collect (collaborative_model g)
                  (map (\<lambda>r. (user_index r, movie_index r)) df) of
             Inl e \<Rightarrow> Inl e
           | Inr ps \<Rightarrow> first ps))"

definition cb_score :: "int \<Rightarrow> int \<Rightarrow> string list \<Rightarrow> globals \<Rightarrow> error + real" where
  "cb_score user movie genres g =
     (case transformed_df user movie genres g of
        Inl e \<Rightarrow> Inl e
      | Inr df \<Rightarrow>
          (case content_collect (content_model g)
                  (map (\<lambda>r. (movie_vector r, movie_genre_features r)) df) of
             Inl e \<Rightarrow> Inl e
           | Inr ps \<Rightarrow> first ps))"

text \<open>
  The function assigns no global, so the globals it returns are the ones it was given.
  An input frame that cannot be built raises first. \<open>cf_score\<close> is collected before
  \<open>cb_score\<close>: its error, if any, is the one raised.
\<close>

definition hybrid_predict ::
  "int \<Rightarrow> int \<Rightarrow> string list \<Rightarrow> globals \<Rightarrow> (error + real) \<times> globals" where
  "hybrid_predict user movie genres g =
     (case cf_score user movie genres g of
        Inl e \<Rightarrow> (Inl e, g)
      | Inr cf \<Rightarrow>
          (case cb_score user movie genres g of
             Inl e \<Rightarrow> (Inl e, g)
           | Inr cb \<Rightarrow> (Inr (0.7 * cf + 0.3 * cb), g)))"

section \<open>The HTTP handlers\<close>

datatype http_method = GET | POST | HEAD

text \<open>
  The JSON body of a request, as the dictionary \<open>request.json\<close>: a field is \<open>None\<close>
  when the key is absent.
\<close>

record json_body =
  userId :: "int option"
  movieIds :: "int list option"
  genres_lists :: "string list list option"

record recommendation =
  movieId :: int
  score :: real

datatype payload =
    Html string
  | JsonRecommendations "recommendation list"
  | JsonStatus string

record response =
  status :: nat
  body :: payload

text \<open>A value returned by a view function is sent with status 200.\<close>

definition jsonify :: "payload \<Rightarrow> response" where
  "jsonify p = \<lparr>status = 200, body = p\<rparr>"

text \<open>
  \<open>sorted(xs, key=k, reverse=True)\<close>: Python reverses the list, sorts it with its
  stable ascending sort and reverses the result.
\<close>

definition sorted_reverse :: "('a \<Rightarrow> 'k::linorder) \<Rightarrow> 'a list \<Rightarrow> 'a list" where
  "sorted_reverse key xs = rev (sort_key key (rev xs))"

definition home :: "globals \<Rightarrow> response \<times> globals" where
  "home g =
     (jsonify (Html ''<h1>Movie Recommendation Service</h1><p>Use /recommend endpoint for recommendations.</p>''), g)"

text \<open>The \<open>for\<close> loop of \<open>recommend\<close> over the zipped pairs; an exception leaves it.\<close>

fun recommend_loop ::
  "int \<Rightarrow> (int \<times> string list) list \<Rightarrow> recommendation list \<Rightarrow> globals
     \<Rightarrow> (error + recommendation list) \<times> globals" where
  "recommend_loop user [] recommendations g = (Inr recommendations, g)"
| "recommend_loop user ((movie, genres) # rest) recommendations g =
     (case hybrid_predict user movie genres g of
        (Inl e, g') \<Rightarrow> (Inl e, g')
      | (Inr s, g') \<Rightarrow>
          recommend_loop user rest (recommendations @ [\<lparr>movieId = movie, score = s\<rparr>]) g')"

text \<open>
  The view function of \<open>/recommend\<close>. The three keys are read in the order of the
  source; a missing key raises KeyError. A method that is neither POST nor GET falls
  through both tests and the function returns nothing.
\<close>

definition recommend :: "http_method \<Rightarrow> json_body \<Rightarrow> globals \<Rightarrow> (error + response) \<times> globals" where
  "recommend method json g =
     (if method = POST then
        (case userId json of
           None \<Rightarrow> (Inl (KeyError ''userId''), g)
         | Some user \<Rightarrow>
        (case movieIds json of
           None \<Rightarrow> (Inl (KeyError ''movieIds''), g)
         | Some mids \<Rightarrow>
        (case genres_lists json of
           None \<Rightarrow> (Inl (KeyError ''genres_lists''), g)
         | Some gls \<Rightarrow>
        (case recommend_loop user (zip mids gls) [] g of
           (Inl e, g') \<Rightarrow> (Inl e, g')
         | (Inr recommendations, g') \<Rightarrow>
             (Inr (jsonify (JsonRecommendations (sorted_reverse score recommendations))), g')))))
      else if method = GET then
        (Inr (jsonify (Html ''<h1>This endpoint is for recommending movies. Please use POST to submit data.</h1>'')), g)
      else (Inl NoResponse, g))"

text \<open>
  The view function of \<open>/shutdown\<close>. It clears the flag and answers; the worker thread
  it starts only sleeps and joins the server thread, and writes no global.
\<close>

definition shutdown :: "globals \<Rightarrow> response \<times> globals" where
  "shutdown g =
     (let g' = g\<lparr>server_active := False\<rparr>
      in (jsonify (JsonStatus ''Server shutting down...''), g'))"

section \<open>A small fitted state for concrete runs\<close>

text \<open>
  Two users (1, 2) and three movies (1, 3, 6) were seen when fitting. The collaborative
  model has a prediction for every pair of them except user index 1 with movie index 2.
  For user 1, movie 1 with two genres and movie 3 with one genre score the same.
\<close>

definition example_pipeline :: pipeline_model where
  "example_pipeline =
     \<lparr>user_indexer = [1 \<mapsto> 0, 2 \<mapsto> 1],
      user_encoder = (\<lambda>i. [if i = 0 then 1 else 0]),
      movie_indexer = [1 \<mapsto> 0, 3 \<mapsto> 1, 6 \<mapsto> 2],
      movie_encoder = (\<lambda>i. [if i = 0 then 1 else 0, if i = 1 then 1 else 0]),
      hashingTF = (\<lambda>gl. [real (length gl)]),
      idf = map (\<lambda>x. 7 * x)\<rparr>"

definition example_globals :: globals where
  "example_globals =
     \<lparr>model = example_pipeline,
      collaborative_model =
        (\<lambda>u i. if u < 2 \<and> i < 3 \<and> u + i < 3 then Some (real (3 * i + u)) else None),
      content_model = sum_list,
      server_active = True\<rparr>"

text \<open>
  The entry that the loop of \<open>recommend\<close> appends for a pair whose prediction
  succeeds (used to describe the list before sorting).
\<close>

definition scored :: "int \<Rightarrow> globals \<Rightarrow> int \<times> string list \<Rightarrow> recommendation" where
  "scored user g p =
     \<lparr>movieId = fst p, score = projr (fst (hybrid_predict user (fst p) (snd p) g))\<rparr>"

text \<open>A request of user 1 for the movies 3, 6 and 1, in that order.\<close>

definition example_request :: json_body where
  "example_request =
     \<lparr>userId = Some 1, movieIds = Some [3, 6, 1],
      genres_lists = Some [[''Comedy''], [''Action''], [''Adventure'', ''Animation'']]\<rparr>"

section \<open>Properties of hybrid_predict\<close>

lemma transformed_df_single:
  "genres \<noteq> [] \<Longrightarrow>
   transformed_df user movie genres g = Inr [transform_row (model g) (user, movie, genres)]"
  by (simp add: transformed_df_def createDataFrame_def)

lemma transformed_df_no_genre:
  "transformed_df user movie [] g = Inl CannotDetermineType"
  by (simp add: transformed_df_def createDataFrame_def)

lemma hybrid_predict_no_genre:
  "hybrid_predict user movie [] g = (Inl CannotDetermineType, g)"
  by (simp add: hybrid_predict_def cf_score_def transformed_df_no_genre)

lemma cf_score_seen:
  assumes "genres \<noteq> []"
    and "user_indexer (model g) user = Some ui"
    and "movie_indexer (model g) movie = Some mi"
  shows "cf_score user movie genres g =
           (case collaborative_model g ui mi of None \<Rightarrow> Inl IndexError | Some p \<Rightarrow> Inr p)"
  using assms
  by (simp add: cf_score_def transformed_df_single transform_row_def string_indexer_def
      first_def Let_def split: option.splits)

lemma cb_score_seen:
  assumes "genres \<noteq> []"
    and "movie_indexer (model g) movie = Some mi"
  shows "cb_score user movie genres g =
           Inr (content_model g (movie_encoder (model g) mi @ idf (model g) (hashingTF (model g) genres)))"
  using assms
  by (simp add: cb_score_def transformed_df_single transform_row_def string_indexer_def
      first_def Let_def)

text \<open>
  Claim C1. On a call on which both fitted models yield a prediction (the genre list is
  not empty, so the input frame is built; the user and the movie have an index; the
  collaborative model has a prediction \<open>cf\<close> for the index pair, which is then the
  collaborative score, and the content score is the content model's value at the movie's
  feature vector, the movie's encoded index followed by its weighted genre vector),
  \<open>hybrid_predict\<close> returns 0.7 times the collaborative score plus 0.3 times the
  content score.
\<close>

theorem hybrid_predict_weighted:
  assumes "genres \<noteq> []"
    and "user_indexer (model g) user = Some ui"
    and "movie_indexer (model g) movie = Some mi"
    and "collaborative_model g ui mi = Some cf"
  shows "cf_score user movie genres g = Inr cf
         \<and> cb_score user movie genres g =
             Inr (content_model g
                    (movie_encoder (model g) mi @ idf (model g) (hashingTF (model g) genres)))
         \<and> hybrid_predict user movie genres g =
             (Inr (0.7 * cf
                   + 0.3 * content_model g
                       (movie_encoder (model g) mi @ idf (model g) (hashingTF (model g) genres))), g)"
  using assms by (simp add: hybrid_predict_def cf_score_seen cb_score_seen)

theorem hybrid_predict_weighted_witness:
  "[''Comedy'', ''Romance''] \<noteq> []
   \<and> user_indexer (model example_globals) 2 = Some 1
   \<and> movie_indexer (model example_globals) 3 = Some 1
   \<and> collaborative_model example_globals 1 1 = Some 4
   \<and> cf_score 2 3 [''Comedy'', ''Romance''] example_globals = Inr 4
   \<and> cb_score 2 3 [''Comedy'', ''Romance''] example_globals = Inr 15
   \<and> hybrid_predict 2 3 [''Comedy'', ''Romance''] example_globals = (Inr (73 / 10), example_globals)"
proof -
  have n: "[''Comedy'', ''Romance''] \<noteq> []" by simp
  have u: "user_indexer (model example_globals) 2 = Some 1"
    by (simp add: example_globals_def example_pipeline_def)
  have m: "movie_indexer (model example_globals) 3 = Some 1"
    by (simp add: example_globals_def example_pipeline_def)
  have c: "collaborative_model example_globals 1 1 = Some 4"
    by (simp add: example_globals_def)
  have v: "content_model example_globals
             (movie_encoder (model example_globals) 1
              @ idf (model example_globals)
                  (hashingTF (model example_globals) [''Comedy'', ''Romance''])) = 15"
    by (simp add: example_globals_def example_pipeline_def)
  from hybrid_predict_weighted [OF n u m c] u m c
  show ?thesis by (simp only: v) simp
qed

lemma hybrid_predict_seen:
  assumes "genres \<noteq> []"
    and "user_indexer (model g) user = Some ui"
    and "movie_indexer (model g) movie = Some mi"
  shows "hybrid_predict user movie genres g =
           (case collaborative_model g ui mi of
              None \<Rightarrow> (Inl IndexError, g)
            | Some cf \<Rightarrow>
                (Inr (0.7 * cf + 0.3 * content_model g
                   (movie_encoder (model g) mi @ idf (model g) (hashingTF (model g) genres))), g))"
  by (simp add: hybrid_predict_def cf_score_seen [OF assms] cb_score_seen [OF assms(1,3)]
      split: option.splits)

lemma cf_score_unseen_user:
  assumes "genres \<noteq> []"
    and "user_indexer (model g) user = None"
  shows "cf_score user movie genres g = Inl (UnseenLabel ''userId'')"
  using assms
  by (simp add: cf_score_def transformed_df_single transform_row_def string_indexer_def Let_def)

lemma cf_score_unseen_movie:
  assumes "genres \<noteq> []"
    and "user_indexer (model g) user = Some ui"
    and "movie_indexer (model g) movie = None"
  shows "cf_score user movie genres g = Inl (UnseenLabel ''movieId'')"
  using assms
  by (simp add: cf_score_def transformed_df_single transform_row_def string_indexer_def Let_def)

section \<open>The state is only read\<close>

lemma hybrid_predict_globals: "snd (hybrid_predict user movie genres g) = g"
  by (simp add: hybrid_predict_def split: sum.splits)

lemma hybrid_predict_pair:
  "hybrid_predict user movie genres g = (fst (hybrid_predict user movie genres g), g)"
  by (metis hybrid_predict_globals prod.collapse)

lemma recommend_loop_globals: "snd (recommend_loop user ps acc g) = g"
proof (induction ps arbitrary: acc)
  case Nil
  show ?case by simp
next
  case (Cons p ps)
  obtain m gl where p: "p = (m, gl)" by (cases p)
  show ?case
  proof (cases "fst (hybrid_predict user m gl g)")
    case (Inl e)
    with hybrid_predict_pair [of user m gl g] have "hybrid_predict user m gl g = (Inl e, g)" by simp
    then show ?thesis by (simp add: p)
  next
    case (Inr s)
    with hybrid_predict_pair [of user m gl g] have "hybrid_predict user m gl g = (Inr s, g)" by simp
    then show ?thesis using Cons.IH by (simp add: p)
  qed
qed

section \<open>The loop of recommend\<close>

lemma recommend_loop_ok:
  assumes "\<forall>p\<in>set ps. \<exists>s. fst (hybrid_predict user (fst p) (snd p) g) = Inr s"
  shows "recommend_loop user ps acc g = (Inr (acc @ map (scored user g) ps), g)"
  using assms
proof (induction ps arbitrary: acc)
  case Nil
  show ?case by simp
next
  case (Cons p ps)
  obtain m gl where p: "p = (m, gl)" by (cases p)
  from Cons.prems obtain s where s: "fst (hybrid_predict user m gl g) = Inr s"
    by (auto simp: p)
  with hybrid_predict_pair [of user m gl g] have hp: "hybrid_predict user m gl g = (Inr s, g)" by simp
  have "recommend_loop user ps (acc @ [\<lparr>movieId = m, score = s\<rparr>]) g =
          (Inr ((acc @ [\<lparr>movieId = m, score = s\<rparr>]) @ map (scored user g) ps), g)"
    using Cons.prems by (intro Cons.IH) simp
  then show ?case by (simp add: p hp scored_def s)
qed

lemma recommend_loop_err:
  assumes "(m, gl) \<in> set ps" and "fst (hybrid_predict user m gl g) = Inl e"
  shows "\<exists>e'. recommend_loop user ps acc g = (Inl e', g)"
  using assms
proof (induction ps arbitrary: acc)
  case Nil
  then show ?case by simp
next
  case (Cons p ps)
  obtain m' gl' where p: "p = (m', gl')" by (cases p)
  show ?case
  proof (cases "fst (hybrid_predict user m' gl' g)")
    case (Inl e')
    with hybrid_predict_pair [of user m' gl' g] have "hybrid_predict user m' gl' g = (Inl e', g)" by simp
    then show ?thesis by (simp add: p)
  next
    case (Inr s)
    with hybrid_predict_pair [of user m' gl' g] have hp: "hybrid_predict user m' gl' g = (Inr s, g)" by simp
    from Inr Cons.prems have "(m, gl) \<in> set ps" by (auto simp: p)
    from Cons.IH [OF this Cons.prems(2)] show ?thesis by (simp add: p hp)
  qed
qed

lemma recommend_loop_Inr:
  assumes "fst (recommend_loop user ps acc g) = Inr recs"
  shows "recs = acc @ map (scored user g) ps
         \<and> (\<forall>p\<in>set ps. \<exists>s. fst (hybrid_predict user (fst p) (snd p) g) = Inr s)"
proof -
  have ok: "\<forall>p\<in>set ps. \<exists>s. fst (hybrid_predict user (fst p) (snd p) g) = Inr s"
  proof
    fix p assume pin: "p \<in> set ps"
    show "\<exists>s. fst (hybrid_predict user (fst p) (snd p) g) = Inr s"
    proof (cases "fst (hybrid_predict user (fst p) (snd p) g)")
      case (Inl e)
      from pin have "(fst p, snd p) \<in> set ps" by simp
      from recommend_loop_err [OF this Inl] obtain e' where
        "recommend_loop user ps acc g = (Inl e', g)" by blast
      with assms show ?thesis by simp
    next
      case (Inr s)
      then show ?thesis by blast
    qed
  qed
  from recommend_loop_ok [OF ok] assms show ?thesis using ok by simp
qed

section \<open>Sorting in descending order\<close>

lemma sorted_reverse_desc: "sorted_wrt (\<lambda>a b. key b \<le> key a) (sorted_reverse key xs)"
proof -
  have "sorted (map key (sort_key key (rev xs)))" by simp
  then have "sorted_wrt (\<lambda>a b. key a \<le> key b) (sort_key key (rev xs))"
    by (simp add: sorted_wrt_map)
  then show ?thesis by (simp add: sorted_reverse_def sorted_wrt_rev)
qed

lemma sorted_reverse_stable:
  "filter (\<lambda>x. key x = k) (sorted_reverse key xs) = filter (\<lambda>x. key x = k) xs"
  by (simp add: sorted_reverse_def rev_filter [symmetric] sort_key_stable)

lemma sorted_reverse_mset: "mset (sorted_reverse key xs) = mset xs"
  by (simp add: sorted_reverse_def)

lemma sorted_reverse_length: "length (sorted_reverse key xs) = length xs"
  by (simp add: sorted_reverse_def)

section \<open>Pairing lists of different lengths\<close>

text \<open>\<open>zip\<close> stops at the end of the shorter list.\<close>

lemma zip_shorter:
  "zip xs ys =
     zip (take (min (length xs) (length ys)) xs) (take (min (length xs) (length ys)) ys)"
proof (induction xs arbitrary: ys)
  case Nil
  show ?case by simp
next
  case (Cons x xs)
  show ?case
  proof (cases ys)
    case Nil
    then show ?thesis by simp
  next
    case (Cons y ys')
    with Cons.IH [of ys'] show ?thesis by simp
  qed
qed

section \<open>Concrete runs\<close>

lemma example_indexers:
  "user_indexer (model example_globals) = [1 \<mapsto> 0, 2 \<mapsto> 1]"
  "movie_indexer (model example_globals) = [1 \<mapsto> 0, 3 \<mapsto> 1, 6 \<mapsto> 2]"
  by (simp_all add: example_globals_def example_pipeline_def)

lemma example_collaborative:
  "collaborative_model example_globals u i =
     (if u < 2 \<and> i < 3 \<and> u + i < 3 then Some (real (3 * i + u)) else None)"
  by (simp add: example_globals_def)

lemma example_content:
  "content_model example_globals
     (movie_encoder (model example_globals) mi @ idf (model example_globals)
        (hashingTF (model example_globals) genres)) =
   (if mi = 0 then 1 else 0) + (if mi = 1 then 1 else 0) + 7 * real (length genres)"
  by (simp add: example_globals_def example_pipeline_def)

lemma example_hp:
  "hybrid_predict 1 3 [''Comedy''] example_globals = (Inr (9 / 2), example_globals)"
  "hybrid_predict 1 6 [''Action''] example_globals = (Inr (63 / 10), example_globals)"
  "hybrid_predict 1 1 [''Adventure'', ''Animation''] example_globals = (Inr (9 / 2), example_globals)"
  by (simp_all add: hybrid_predict_seen [where ui = 0 and mi = 1]
      hybrid_predict_seen [where ui = 0 and mi = 2]
      hybrid_predict_seen [where ui = 0 and mi = 0]
      example_indexers example_collaborative example_content)

lemma example_recommend:
  "recommend POST example_request example_globals =
     (Inr \<lparr>status = 200, body = JsonRecommendations
        [\<lparr>movieId = 6, score = 63 / 10\<rparr>, \<lparr>movieId = 3, score = 9 / 2\<rparr>,
         \<lparr>movieId = 1, score = 9 / 2\<rparr>]\<rparr>, example_globals)"
  by (simp add: recommend_def example_request_def example_hp jsonify_def sorted_reverse_def)

lemma example_cold:
  "hybrid_predict 99 1 [''Comedy''] example_globals = (Inl (UnseenLabel ''userId''), example_globals)"
  "hybrid_predict 1 7 [''Drama''] example_globals = (Inl (UnseenLabel ''movieId''), example_globals)"
  "hybrid_predict 2 6 [''Action''] example_globals = (Inl IndexError, example_globals)"
  by (simp_all add: hybrid_predict_def cf_score_unseen_user
      cf_score_unseen_movie [where ui = 0] cf_score_seen [where ui = 1 and mi = 2]
      example_indexers example_collaborative)

section \<open>Ranking\<close>

text \<open>
  Claim C2. Whenever the POST handler of \<open>/recommend\<close> answers, the list it returns
  is in descending order of score: each entry's score is at most the score of the entry
  before it. Entries with equal scores keep the order in which the loop produced them,
  which is the order of \<open>movieIds\<close>: for every score value, the entries with that score
  are the same sequence in the answer and in the list before sorting.
\<close>

theorem recommend_sorted_stable:
  assumes "userId json = Some user"
    and "movieIds json = Some mids"
    and "genres_lists json = Some gls"
    and "fst (recommend POST json g) = Inr resp"
  shows "\<exists>recs unsorted.
           resp = \<lparr>status = 200, body = JsonRecommendations recs\<rparr>
           \<and> recommend_loop user (zip mids gls) [] g = (Inr unsorted, g)
           \<and> map movieId unsorted = map fst (zip mids gls)
           \<and> (\<forall>i. Suc i < length recs \<longrightarrow> score (recs ! Suc i) \<le> score (recs ! i))
           \<and> sorted_wrt (\<lambda>a b. score b \<le> score a) recs
           \<and> (\<forall>k. filter (\<lambda>r. score r = k) recs = filter (\<lambda>r. score r = k) unsorted)"
proof -
  let ?loop = "recommend_loop user (zip mids gls) [] g"
  have pair: "?loop = (fst ?loop, g)"
    by (metis recommend_loop_globals prod.collapse)
  obtain unsorted where u: "fst ?loop = Inr unsorted"
  proof (cases "fst ?loop")
    case (Inl e)
    with pair have "?loop = (Inl e, g)" by simp
    with assms show ?thesis by (simp add: recommend_def)
  next
    case (Inr x)
    then show ?thesis by (rule that)
  qed
  with pair have loop: "?loop = (Inr unsorted, g)" by simp
  let ?recs = "sorted_reverse score unsorted"
  from assms loop have resp: "resp = \<lparr>status = 200, body = JsonRecommendations ?recs\<rparr>"
    by (simp add: recommend_def jsonify_def)
  from recommend_loop_Inr [OF u] have "unsorted = map (scored user g) (zip mids gls)" by simp
  then have ids: "map movieId unsorted = map fst (zip mids gls)"
    by (simp add: scored_def)
  have desc: "sorted_wrt (\<lambda>a b. score b \<le> score a) ?recs"
    by (rule sorted_reverse_desc)
  have adj: "\<forall>i. Suc i < length ?recs \<longrightarrow> score (?recs ! Suc i) \<le> score (?recs ! i)"
    using desc by (simp add: sorted_wrt_iff_nth_less)
  have stable: "\<forall>k. filter (\<lambda>r. score r = k) ?recs = filter (\<lambda>r. score r = k) unsorted"
    by (simp add: sorted_reverse_stable)
  from resp loop ids adj desc stable show ?thesis by blast
qed

theorem recommend_sorted_stable_witness:
  "fst (recommend POST example_request example_globals) =
     Inr \<lparr>status = 200, body = JsonRecommendations
        [\<lparr>movieId = 6, score = 63 / 10\<rparr>, \<lparr>movieId = 3, score = 9 / 2\<rparr>,
         \<lparr>movieId = 1, score = 9 / 2\<rparr>]\<rparr>
   \<and> (\<exists>recs unsorted.
         \<lparr>status = 200, body = JsonRecommendations
            [\<lparr>movieId = 6, score = 63 / 10\<rparr>, \<lparr>movieId = 3, score = 9 / 2\<rparr>,
             \<lparr>movieId = 1, score = 9 / 2\<rparr>]\<rparr>
           = \<lparr>status = 200, body = JsonRecommendations recs\<rparr>
         \<and> recommend_loop 1 (zip [3, 6, 1] [[''Comedy''], [''Action''], [''Adventure'', ''Animation'']]) []
             example_globals = (Inr unsorted, example_globals)
         \<and> map movieId unsorted = map fst (zip [3, 6, 1] [[''Comedy''], [''Action''], [''Adventure'', ''Animation'']])
         \<and> (\<forall>i. Suc i < length recs \<longrightarrow> score (recs ! Suc i) \<le> score (recs ! i))
         \<and> sorted_wrt (\<lambda>a b. score b \<le> score a) recs
         \<and> (\<forall>k. filter (\<lambda>r. score r = k) recs = filter (\<lambda>r. score r = k) unsorted))"
proof -
  have r: "fst (recommend POST example_request example_globals) =
     Inr \<lparr>status = 200, body = JsonRecommendations
        [\<lparr>movieId = 6, score = 63 / 10\<rparr>, \<lparr>movieId = 3, score = 9 / 2\<rparr>,
         \<lparr>movieId = 1, score = 9 / 2\<rparr>]\<rparr>"
    by (simp add: example_recommend)
  have a: "userId example_request = Some 1" by (simp add: example_request_def)
  have b: "movieIds example_request = Some [3, 6, 1]" by (simp add: example_request_def)
  have c: "genres_lists example_request = Some [[''Comedy''], [''Action''], [''Adventure'', ''Animation'']]"
    by (simp add: example_request_def)
  from recommend_sorted_stable [OF a b c r] r show ?thesis by blast
qed

text \<open>
  Claim C3. When \<open>movieIds\<close> and \<open>genres_lists\<close> have the same length and every paired
  prediction succeeds, the handler answers with status 200 and a list as long as
  \<open>movieIds\<close> whose movie ids are those of \<open>movieIds\<close>, each as many times as it occurs
  there: once when \<open>movieIds\<close> has no repetition. Nothing is cut off.
\<close>

theorem recommend_full_list:
  assumes "userId json = Some user"
    and "movieIds json = Some mids"
    and "genres_lists json = Some gls"
    and "length mids = length gls"
    and "\<forall>p\<in>set (zip mids gls). \<exists>s. fst (hybrid_predict user (fst p) (snd p) g) = Inr s"
  shows "\<exists>recs.
           recommend POST json g = (Inr \<lparr>status = 200, body = JsonRecommendations recs\<rparr>, g)
           \<and> length recs = length mids
           \<and> mset (map movieId recs) = mset mids
           \<and> (distinct mids \<longrightarrow> distinct (map movieId recs))"
proof -
  let ?unsorted = "map (scored user g) (zip mids gls)"
  let ?recs = "sorted_reverse score ?unsorted"
  have loop: "recommend_loop user (zip mids gls) [] g = (Inr ?unsorted, g)"
    using recommend_loop_ok [OF assms(5), of "[]"] by simp
  then have resp: "recommend POST json g = (Inr \<lparr>status = 200, body = JsonRecommendations ?recs\<rparr>, g)"
    using assms(1-3) by (simp add: recommend_def jsonify_def)
  have ids: "map movieId ?unsorted = mids"
    using assms(4) by (simp add: scored_def comp_def)
  have len: "length ?recs = length mids"
    using assms(4) by (simp add: sorted_reverse_length)
  have "mset (map movieId ?recs) = mset (map movieId ?unsorted)"
    using sorted_reverse_mset [of score ?unsorted] by (metis mset_map)
  then have ms: "mset (map movieId ?recs) = mset mids" by (simp only: ids)
  have "distinct mids \<longrightarrow> distinct (map movieId ?recs)"
    using ms by (metis mset_eq_imp_distinct_iff)
  with resp len ms show ?thesis by blast
qed


theorem recommend_full_list_witness:
  "userId example_request = Some 1
   \<and> movieIds example_request = Some [3, 6, 1]
   \<and> genres_lists example_request = Some [[''Comedy''], [''Action''], [''Adventure'', ''Animation'']]
   \<and> length [3, 6, 1 :: int] = length [[''Comedy''], [''Action''], [''Adventure'', ''Animation'']]
   \<and> fst (hybrid_predict 1 3 [''Comedy''] example_globals) = Inr (9 / 2)
   \<and> fst (hybrid_predict 1 6 [''Action''] example_globals) = Inr (63 / 10)
   \<and> fst (hybrid_predict 1 1 [''Adventure'', ''Animation''] example_globals) = Inr (9 / 2)
   \<and> (\<exists>recs.
         recommend POST example_request example_globals =
           (Inr \<lparr>status = 200, body = JsonRecommendations recs\<rparr>, example_globals)
         \<and> length recs = length [3, 6, 1 :: int]
         \<and> mset (map movieId recs) = mset [3, 6, 1]
         \<and> (distinct [3, 6, 1 :: int] \<longrightarrow> distinct (map movieId recs)))"
proof -
  have a: "userId example_request = Some 1" by (simp add: example_request_def)
  have b: "movieIds example_request = Some [3, 6, 1]" by (simp add: example_request_def)
  have c: "genres_lists example_request = Some [[''Comedy''], [''Action''], [''Adventure'', ''Animation'']]"
    by (simp add: example_request_def)
  have d: "length [3, 6, 1 :: int] = length [[''Comedy''], [''Action''], [''Adventure'', ''Animation'']]"
    by simp
  have e: "\<forall>p\<in>set (zip [3, 6, 1] [[''Comedy''], [''Action''], [''Adventure'', ''Animation'']]).
         \<exists>s. fst (hybrid_predict 1 (fst p) (snd p) example_globals) = Inr s"
  proof -
    have "\<exists>s. fst (hybrid_predict 1 3 [''Comedy''] example_globals) = Inr s"
      by (simp only: example_hp fst_conv) blast
    moreover have "\<exists>s. fst (hybrid_predict 1 6 [''Action''] example_globals) = Inr s"
      by (simp only: example_hp fst_conv) blast
    moreover have "\<exists>s. fst (hybrid_predict 1 1 [''Adventure'', ''Animation''] example_globals) = Inr s"
      by (simp only: example_hp fst_conv) blast
    ultimately show ?thesis by simp
  qed
  have f: "fst (hybrid_predict 1 3 [''Comedy''] example_globals) = Inr (9 / 2)"
    "fst (hybrid_predict 1 6 [''Action''] example_globals) = Inr (63 / 10)"
    "fst (hybrid_predict 1 1 [''Adventure'', ''Animation''] example_globals) = Inr (9 / 2)"
    by (simp_all only: example_hp fst_conv)
  from recommend_full_list [OF a b c d e] a b c d f show ?thesis by blast
qed

section \<open>Cold start\<close>

text \<open>
  A movie that was not seen when fitting: the prediction raises, and so does the request
  that contains it, although its first pair can be scored. The same holds for an unseen
  user. No default score appears.
\<close>

theorem cold_start_counterexample:
  "hybrid_predict 1 7 [''Drama''] example_globals = (Inl (UnseenLabel ''movieId''), example_globals)
   \<and> recommend POST
        \<lparr>userId = Some 1, movieIds = Some [3, 7], genres_lists = Some [[''Comedy''], [''Drama'']]\<rparr>
        example_globals = (Inl (UnseenLabel ''movieId''), example_globals)
   \<and> recommend POST
        \<lparr>userId = Some 99, movieIds = Some [1], genres_lists = Some [[''Comedy'']]\<rparr>
        example_globals = (Inl (UnseenLabel ''userId''), example_globals)"
  by (simp add: recommend_def example_hp example_cold)

text \<open>
  Claim C4, as amended. For a user or a movie that the fitted indexers have not seen, or
  a pair for which the collaborative model has no prediction, \<open>hybrid_predict\<close> raises
  an error and returns no score, leaving the globals as they were; a POST to
  \<open>/recommend\<close> whose paired lists contain such a movie for such a user raises as well
  and returns no list. No fallback score is substituted.
\<close>

theorem cold_start_raises:
  assumes "user_indexer (model g) user = None
           \<or> movie_indexer (model g) movie = None
           \<or> (\<exists>ui mi. user_indexer (model g) user = Some ui
                 \<and> movie_indexer (model g) movie = Some mi
                 \<and> collaborative_model g ui mi = None)"
  shows "(\<exists>e. hybrid_predict user movie genres g = (Inl e, g))
         \<and> (userId json = Some user \<and> movieIds json = Some mids \<and> genres_lists json = Some gls
              \<and> (movie, genres) \<in> set (zip mids gls)
            \<longrightarrow> (\<exists>e. recommend POST json g = (Inl e, g)))"
proof -
  have "\<exists>e. cf_score user movie genres g = Inl e"
  proof (cases "genres = []")
    case True
    then show ?thesis by (simp add: cf_score_def transformed_df_no_genre)
  next
    case False
    show ?thesis
    proof (cases "user_indexer (model g) user")
      case None
      with False show ?thesis by (simp add: cf_score_unseen_user)
    next
      case (Some ui)
      show ?thesis
      proof (cases "movie_indexer (model g) movie")
        case None
        with False Some show ?thesis by (simp add: cf_score_unseen_movie)
      next
        case (Some mi)
        with \<open>user_indexer (model g) user = Some ui\<close> assms
        have "collaborative_model g ui mi = None" by auto
        with False Some \<open>user_indexer (model g) user = Some ui\<close> show ?thesis
          by (simp add: cf_score_seen)
      qed
    qed
  qed
  then obtain e where e: "cf_score user movie genres g = Inl e" by blast
  then have hp: "hybrid_predict user movie genres g = (Inl e, g)"
    by (simp add: hybrid_predict_def)
  have "\<exists>e'. recommend POST json g = (Inl e', g)"
    if j: "userId json = Some user" "movieIds json = Some mids" "genres_lists json = Some gls"
      and mem: "(movie, genres) \<in> set (zip mids gls)"
  proof -
    from hp have "fst (hybrid_predict user movie genres g) = Inl e" by simp
    from recommend_loop_err [OF mem this] obtain e' where
      "recommend_loop user (zip mids gls) [] g = (Inl e', g)" by blast
    with j show ?thesis by (simp add: recommend_def)
  qed
  with hp show ?thesis by blast
qed

theorem cold_start_raises_witness:
  "(user_indexer (model example_globals) 99 = None
    \<or> movie_indexer (model example_globals) 1 = None
    \<or> (\<exists>ui mi. user_indexer (model example_globals) 99 = Some ui
          \<and> movie_indexer (model example_globals) 1 = Some mi
          \<and> collaborative_model example_globals ui mi = None))
   \<and> userId \<lparr>userId = Some 99, movieIds = Some [1], genres_lists = Some [[''Comedy'']]\<rparr> = Some 99
   \<and> (1, [''Comedy'']) \<in> set (zip [1 :: int] [[''Comedy'']])
   \<and> (\<exists>e. hybrid_predict 99 1 [''Comedy''] example_globals = (Inl e, example_globals))
   \<and> (\<exists>e. recommend POST
              \<lparr>userId = Some 99, movieIds = Some [1], genres_lists = Some [[''Comedy'']]\<rparr>
              example_globals = (Inl e, example_globals))"
proof -
  have h: "user_indexer (model example_globals) 99 = None
    \<or> movie_indexer (model example_globals) 1 = None
    \<or> (\<exists>ui mi. user_indexer (model example_globals) 99 = Some ui
          \<and> movie_indexer (model example_globals) 1 = Some mi
          \<and> collaborative_model example_globals ui mi = None)"
    by (simp add: example_indexers)
  from cold_start_raises [OF h, of "[''Comedy'']"
      "\<lparr>userId = Some 99, movieIds = Some [1], genres_lists = Some [[''Comedy'']]\<rparr>"
      "[1]" "[[''Comedy'']]"] h
  show ?thesis by simp
qed

section \<open>Malformed requests\<close>

text \<open>
  Three movie ids with one genre list: the handler answers with status 200 and the one
  entry that \<open>zip\<close> pairs, dropping the other two ids. Without the key \<open>movieIds\<close>
  the handler raises KeyError and builds no response.
\<close>

theorem malformed_request_counterexample:
  "recommend POST
     \<lparr>userId = Some 1, movieIds = Some [3, 6, 1], genres_lists = Some [[''Comedy'']]\<rparr>
     example_globals
     = (Inr \<lparr>status = 200, body = JsonRecommendations [\<lparr>movieId = 3, score = 9 / 2\<rparr>]\<rparr>,
        example_globals)
   \<and> recommend POST
       \<lparr>userId = Some 1, movieIds = None, genres_lists = Some [[''Comedy'']]\<rparr>
       example_globals
     = (Inl (KeyError ''movieIds''), example_globals)"
  by (simp add: recommend_def example_hp jsonify_def sorted_reverse_def)

text \<open>
  Claim C5, as amended. A POST to \<open>/recommend\<close> that lacks a required field raises
  KeyError for the first missing key, in the order \<open>userId\<close>, \<open>movieIds\<close>,
  \<open>genres_lists\<close>, builds no response and leaves the globals unchanged. A request
  whose two lists differ in length is not rejected: the handler behaves exactly as on the
  request whose lists are both cut to the shorter length.
\<close>

theorem malformed_request_behaviour:
  "(userId json = None \<longrightarrow> recommend POST json g = (Inl (KeyError ''userId''), g))
   \<and> (userId json = Some user \<and> movieIds json = None
        \<longrightarrow> recommend POST json g = (Inl (KeyError ''movieIds''), g))
   \<and> (userId json = Some user \<and> movieIds json = Some mids \<and> genres_lists json = None
        \<longrightarrow> recommend POST json g = (Inl (KeyError ''genres_lists''), g))
   \<and> (userId json = Some user \<and> movieIds json = Some mids \<and> genres_lists json = Some gls
        \<longrightarrow> recommend POST json g =
            recommend POST
              \<lparr>userId = Some user,
               movieIds = Some (take (min (length mids) (length gls)) mids),
               genres_lists = Some (take (min (length mids) (length gls)) gls)\<rparr> g)"
proof -
  have "recommend POST json g =
          recommend POST
            \<lparr>userId = Some user,
             movieIds = Some (take (min (length mids) (length gls)) mids),
             genres_lists = Some (take (min (length mids) (length gls)) gls)\<rparr> g"
    if "userId json = Some user" "movieIds json = Some mids" "genres_lists json = Some gls"
    using that zip_shorter [of mids gls] by (simp add: recommend_def)
  then show ?thesis by (simp add: recommend_def)
qed

theorem malformed_request_behaviour_witness:
  "recommend POST \<lparr>userId = None, movieIds = Some [3], genres_lists = Some [[''Comedy'']]\<rparr>
     example_globals = (Inl (KeyError ''userId''), example_globals)
   \<and> recommend POST \<lparr>userId = Some 1, movieIds = None, genres_lists = Some [[''Comedy'']]\<rparr>
       example_globals = (Inl (KeyError ''movieIds''), example_globals)
   \<and> recommend POST \<lparr>userId = Some 1, movieIds = Some [3], genres_lists = None\<rparr>
       example_globals = (Inl (KeyError ''genres_lists''), example_globals)
   \<and> recommend POST
       \<lparr>userId = Some 1, movieIds = Some [3, 6, 1], genres_lists = Some [[''Comedy'']]\<rparr>
       example_globals
     = recommend POST \<lparr>userId = Some 1, movieIds = Some [3], genres_lists = Some [[''Comedy'']]\<rparr>
         example_globals"
  using
    malformed_request_behaviour
      [of "\<lparr>userId = None, movieIds = Some [3], genres_lists = Some [[''Comedy'']]\<rparr>"
          example_globals]
    malformed_request_behaviour
      [of "\<lparr>userId = Some 1, movieIds = None, genres_lists = Some [[''Comedy'']]\<rparr>"
          example_globals 1]
    malformed_request_behaviour
      [of "\<lparr>userId = Some 1, movieIds = Some [3], genres_lists = None\<rparr>"
          example_globals 1 "[3]"]
    malformed_request_behaviour
      [of "\<lparr>userId = Some 1, movieIds = Some [3, 6, 1], genres_lists = Some [[''Comedy'']]\<rparr>"
          example_globals 1 "[3, 6, 1]" "[[''Comedy'']]"]
  by simp

section \<open>The content score and the user\<close>

text \<open>
  Claim C7. The content score does not depend on the user: two calls that differ only
  in the user compute the same \<open>cb_score\<close>.
\<close>

theorem cb_score_user_independent:
  "cb_score user1 movie genres g = cb_score user2 movie genres g"
proof (cases "genres = []")
  case True
  then show ?thesis by (simp add: cb_score_def transformed_df_no_genre)
next
  case False
  then show ?thesis
    by (simp add: cb_score_def transformed_df_single transform_row_def Let_def)
qed

section \<open>Empty requests and shutdown\<close>

text \<open>
  Claim C9. A POST to \<open>/recommend\<close> with empty \<open>movieIds\<close> and \<open>genres_lists\<close>
  answers with status 200 and the empty list. This holds in every state of the globals,
  also those in which every prediction would raise: the loop body, the only place that
  calls the predictor, is not entered.
\<close>

theorem recommend_empty:
  "recommend POST \<lparr>userId = Some user, movieIds = Some [], genres_lists = Some []\<rparr> g
     = (Inr \<lparr>status = 200, body = JsonRecommendations []\<rparr>, g)"
  by (simp add: recommend_def jsonify_def sorted_reverse_def)

text \<open>
  Claim C10. Every call of the \<open>/shutdown\<close> handler answers with the same status
  body and status 200 and leaves \<open>server_active\<close> false, whatever the flag was before;
  a second call returns the same answer and the same state as the first.
\<close>

theorem shutdown_idempotent:
  "shutdown g = (\<lparr>status = 200, body = JsonStatus ''Server shutting down...''\<rparr>,
                 g\<lparr>server_active := False\<rparr>)
   \<and> server_active (snd (shutdown g)) = False
   \<and> shutdown (snd (shutdown g)) = shutdown g"
  by (simp add: shutdown_def jsonify_def)

end
